theory Spec2Isabelle
  imports Main "HOL-Library.Sublist"
begin

section \<open>The LVS configuration loader of \<open>checks/utils/utils.py\<close>\<close>

text \<open>
  The theory embeds \<open>is_valid\<close>, \<open>substitute_env_variables\<close> and
  \<open>parse_config_file\<close> of \<open>checks/utils/utils.py\<close>, together with the pieces of the
  Python library they call (\<open>str.split\<close>, \<open>str.join\<close>, \<open>str.replace\<close> with a count of
  one, \<open>re.findall\<close> for the pattern \<open>\$\w+\<close>).

  Strings are ASCII texts (\<open>char list\<close>); on them \<open>\w\<close> is a letter, a digit or the
  underscore, and \<open>str.split()\<close> separates at the ASCII whitespace characters.
\<close>

subsection \<open>Python string operations\<close>

definition is_word :: "char \<Rightarrow> bool" where
  "is_word c =
     (let n = (of_char c :: nat)
      in (48 \<le> n \<and> n \<le> 57) \<or> (65 \<le> n \<and> n \<le> 90) \<or> n = 95 \<or> (97 \<le> n \<and> n \<le> 122))"

definition is_space :: "char \<Rightarrow> bool" where
  "is_space c =
     (let n = (of_char c :: nat)
      in (9 \<le> n \<and> n \<le> 13) \<or> (28 \<le> n \<and> n \<le> 32))"

text \<open>\<open>s.split()\<close>: the maximal runs of non-whitespace characters, in order.\<close>

fun split_from :: "string \<Rightarrow> string \<Rightarrow> string list" where
  "split_from cur [] = (if cur = [] then [] else [cur])"
| "split_from cur (c # cs) =
     (if is_space c then (if cur = [] then split_from [] cs else cur # split_from [] cs)
      else split_from (cur @ [c]) cs)"

definition py_split :: "string \<Rightarrow> string list" where
  "py_split s = split_from [] s"

text \<open>\<open>' '.join(xs)\<close>.\<close>

fun join :: "string list \<Rightarrow> string" where
  "join [] = []"
| "join [x] = x"
| "join (x # y # ys) = x @ '' '' @ join (y # ys)"

text \<open>\<open>s.replace(w, v, 1)\<close>: the leftmost occurrence of \<open>w\<close> in \<open>s\<close> gives way to \<open>v\<close>.\<close>

fun replace_first :: "string \<Rightarrow> string \<Rightarrow> string \<Rightarrow> string" where
  "replace_first w v [] = (if w = [] then v else [])"
| "replace_first w v (c # cs) =
     (if prefix w (c # cs) then v @ drop (length w) (c # cs)
      else c # replace_first w v cs)"

text \<open>
  \<open>re.findall(r'\$\w+', s)\<close>: the non-overlapping matches from left to right; a match is
  a dollar sign and the longest run of word characters after it, which is not empty.
\<close>

function findall :: "string \<Rightarrow> string list" where
  "findall [] = []"
| "findall (c # cs) =
     (if c = CHR ''$'' \<and> takeWhile is_word cs \<noteq> []
      then (c # takeWhile is_word cs) # findall (dropWhile is_word cs)
      else findall cs)"
  by pat_completeness auto
termination
  by (relation "measure length") (auto simp: less_Suc_eq_le length_dropWhile_le)

subsection \<open>Data model\<close>

text \<open>
  \<open>be_env\<close> is a dictionary from strings to strings. What \<open>json.load\<close> returns is a
  string, a list, a dictionary (its items in the order of the document) or something
  else (a number, a boolean, \<open>None\<close>). Opening and decoding a file is the file system's
  part: a path is unreadable, holds malformed JSON, or holds a JSON value. A dictionary
  has no key twice; where a property depends on that, it says so of the list of items.
\<close>

type_synonym environment = "string \<rightharpoonup> string"

datatype json = JString string | JArray "json list" | JObject "(string \<times> json) list" | JOther

datatype file_content = Unreadable | Malformed | Parsed json

type_synonym file_system = "string \<Rightarrow> file_content"

datatype exn =
  OSError | JSONDecodeError | AttributeError | KeyError | UnboundLocalError | RecursionError

text \<open>One constructor for each logging call of the two functions, with the values it prints.\<close>

datatype log_msg =
    Loading string                 \<comment> \<open>info: Loading LVS environment from ...\<close>
  | CouldNotFindVariable string    \<comment> \<open>error: ... couldn't find environment variable ...\<close>
  | IsAbsolutePath string          \<comment> \<open>error: ... is an absolute path, ...\<close>
  | ExceptionType exn              \<comment> \<open>error: \<open>type(err)\<close>\<close>
  | ExceptionArgs exn              \<comment> \<open>error: \<open>err.args\<close>\<close>
  | ErrorWithFile string           \<comment> \<open>error: Error with file ...\<close>

record state =
  env :: environment
  log :: "log_msg list"

definition logging :: "log_msg \<Rightarrow> state \<Rightarrow> state" where
  "logging m st = st\<lparr>log := log st @ [m]\<rparr>"

definition assign :: "string \<Rightarrow> string \<Rightarrow> state \<Rightarrow> state" where
  "assign k v st = st\<lparr>env := (env st)(k \<mapsto> v)\<rparr>"

text \<open>
  How a loop body or a loop ends: an exception, a \<open>return\<close> out of the function, or
  the normal end with the values of the local variables.
\<close>

datatype 'a ctl = Raised exn | Returned bool | Normal 'a

abbreviation INCLUDE_CONFIGS :: string where
  "INCLUDE_CONFIGS \<equiv> ''INCLUDE_CONFIGS''"

subsection \<open>The functions\<close>

definition is_valid :: "string \<Rightarrow> bool" where
  "is_valid s = (if prefix ''/'' s then False else True)"

text \<open>The loop \<open>for w in words\<close>: \<open>Inl w\<close> is the token whose variable is missing.\<close>

fun substitute_words :: "string list \<Rightarrow> string \<Rightarrow> environment \<Rightarrow> string + string" where
  "substitute_words [] s e = Inr s"
| "substitute_words (w # ws) s e =
     (case e (drop 1 w) of
        Some v \<Rightarrow> substitute_words ws (replace_first w v s) e
      | None \<Rightarrow> Inl w)"

definition substitute_env_variables :: "string \<Rightarrow> state \<Rightarrow> string option \<times> state" where
  "substitute_env_variables s st =
     (if CHR ''$'' \<in> set s then
        (case substitute_words (findall s) s (env st) of
           Inr s' \<Rightarrow> (Some s', st)
         | Inl w \<Rightarrow> (None, logging (CouldNotFindVariable w) st))
      else (Some s, st))"

text \<open>
  The loop \<open>for val in value\<close> of \<open>parse_config_file\<close>. \<open>load\<close> is the recursive call
  \<open>parse_config_file(val, be_env)\<close>; \<open>exports\<close> and \<open>val\<close> are the local variables
  (\<open>val\<close> is \<open>None\<close> as long as it is unbound).
\<close>

fun process_list ::
  "(string \<Rightarrow> state \<Rightarrow> (exn + bool) \<times> state) \<Rightarrow> string \<Rightarrow> json list \<Rightarrow> string list \<Rightarrow>
   string option \<Rightarrow> state \<Rightarrow> (string list \<times> string option) ctl \<times> state" where
  "process_list load key [] exports val st = (Normal (exports, val), st)"
| "process_list load key (v # vs) exports val st =
     (case v of
        JString s \<Rightarrow>
          if is_valid s then
            (case substitute_env_variables s st of
               (None, st1) \<Rightarrow> (Returned False, st1)
             | (Some s', st1) \<Rightarrow>
                 if s' \<notin> set exports then
                   if key = INCLUDE_CONFIGS then
                     (case env st1 INCLUDE_CONFIGS of
                        None \<Rightarrow> (Raised KeyError, st1)
                      | Some ic \<Rightarrow>
                          (case load s' (assign INCLUDE_CONFIGS (ic @ '' '' @ s') st1) of
                             (Inl e, st2) \<Rightarrow> (Raised e, st2)
                           | (Inr b, st2) \<Rightarrow>
                               if \<not> b then (Returned False, st2)
                               else process_list load key vs (exports @ [s']) (Some s') st2))
                   else process_list load key vs (exports @ [s']) (Some s') st1
                 else process_list load key vs exports (Some s') st1)
          else (Returned False, logging (IsAbsolutePath s) st)
      | _ \<Rightarrow> (Raised AttributeError, st))"

text \<open>The loop \<open>for key, value in data.items()\<close>.\<close>

fun process_items ::
  "(string \<Rightarrow> state \<Rightarrow> (exn + bool) \<times> state) \<Rightarrow> (string \<times> json) list \<Rightarrow>
   string option \<Rightarrow> state \<Rightarrow> (string option) ctl \<times> state" where
  "process_items load [] val st = (Normal val, st)"
| "process_items load ((key, value) # rest) val st =
     (case value of
        JArray vals \<Rightarrow>
          (case process_list load key vals
                  (case env st key of Some x \<Rightarrow> py_split x | None \<Rightarrow> []) val st of
             (Raised e, st1) \<Rightarrow> (Raised e, st1)
           | (Returned b, st1) \<Rightarrow> (Returned b, st1)
           | (Normal (exports, val1), st1) \<Rightarrow>
               process_items load rest val1
                 (if key \<noteq> INCLUDE_CONFIGS then assign key (join exports) st1 else st1))
      | JString s \<Rightarrow>
          if is_valid s then
            (case substitute_env_variables s st of
               (None, st1) \<Rightarrow> (Returned False, st1)
             | (Some s', st1) \<Rightarrow> process_items load rest val (assign key s' st1))
          else
            (case val of
               None \<Rightarrow> (Raised UnboundLocalError, st)
             | Some x \<Rightarrow> (Returned False, logging (IsAbsolutePath x) st))
      | _ \<Rightarrow> (Raised AttributeError, st))"

text \<open>The body of the \<open>try\<close> statement.\<close>

definition try_body ::
  "(string \<Rightarrow> state \<Rightarrow> (exn + bool) \<times> state) \<Rightarrow> file_system \<Rightarrow> string \<Rightarrow> state \<Rightarrow>
   (exn + bool) \<times> state" where
  "try_body load fs json_file st =
     (case fs json_file of
        Unreadable \<Rightarrow> (Inl OSError, st)
      | Malformed \<Rightarrow> (Inl JSONDecodeError, st)
      | Parsed (JObject items) \<Rightarrow>
          (case process_items load items None st of
             (Raised e, st1) \<Rightarrow> (Inl e, st1)
           | (Returned b, st1) \<Rightarrow> (Inr b, st1)
           | (Normal _, st1) \<Rightarrow> (Inr True, st1))
      | Parsed _ \<Rightarrow> (Inl AttributeError, st))"

text \<open>
  \<open>parse_config_file\<close> with the number of stack frames that Python's recursion limit
  leaves: with none left the call raises \<open>RecursionError\<close> in its caller, otherwise the
  \<open>except Exception\<close> clause turns every exception of the body into \<open>False\<close>.
\<close>

primrec parse_config_file ::
  "nat \<Rightarrow> file_system \<Rightarrow> string \<Rightarrow> state \<Rightarrow> (exn + bool) \<times> state" where
  "parse_config_file 0 fs json_file st = (Inl RecursionError, st)"
| "parse_config_file (Suc depth) fs json_file st =
     (case try_body (parse_config_file depth fs) fs json_file (logging (Loading json_file) st) of
        (Inr b, st1) \<Rightarrow> (Inr b, st1)
      | (Inl e, st1) \<Rightarrow>
          (Inr False,
           logging (ErrorWithFile json_file) (logging (ExceptionArgs e) (logging (ExceptionType e) st1))))"

subsection \<open>Predicates of the specification and example configurations\<close>

text \<open>The contents of a path that do not parse as a JSON object.\<close>

definition not_a_json_object :: "file_content \<Rightarrow> bool" where
  "not_a_json_object c = (case c of Parsed (JObject items) \<Rightarrow> False | _ \<Rightarrow> True)"

definition seed :: "(string \<times> string) list \<Rightarrow> state" where
  "seed kvs = \<lparr>env = map_of kvs, log = []\<rparr>"

text \<open>\<open>A\<close> includes \<open>B\<close> and \<open>D\<close>, and \<open>B\<close> includes \<open>D\<close>.\<close>

definition fs_shared_child :: file_system where
  "fs_shared_child p =
     (if p = ''A'' then Parsed (JObject [(INCLUDE_CONFIGS, JArray [JString ''B'', JString ''D''])])
      else if p = ''B'' then Parsed (JObject [(INCLUDE_CONFIGS, JArray [JString ''D''])])
      else if p = ''D'' then Parsed (JObject [])
      else Unreadable)"

text \<open>The diamond: \<open>A\<close> includes \<open>B\<close> and \<open>C\<close>, and both include \<open>D\<close>.\<close>

definition fs_diamond :: file_system where
  "fs_diamond p =
     (if p = ''A'' then Parsed (JObject [(INCLUDE_CONFIGS, JArray [JString ''B'', JString ''C''])])
      else if p = ''B'' then Parsed (JObject [(INCLUDE_CONFIGS, JArray [JString ''D''])])
      else if p = ''C'' then Parsed (JObject [(INCLUDE_CONFIGS, JArray [JString ''D''])])
      else if p = ''D'' then Parsed (JObject [])
      else Unreadable)"

text \<open>A scalar that is an absolute path, as the first key and after a list.\<close>

definition fs_absolute_scalar :: file_system where
  "fs_absolute_scalar p =
     (if p = ''first.json'' then Parsed (JObject [(''LAYOUT_FILE'', JString ''/abs/layout.gds'')])
      else if p = ''second.json'' then
        Parsed (JObject [(''LVS_FLATTEN'', JArray [JString ''cell_a'']),
                         (''LAYOUT_FILE'', JString ''/abs/layout.gds'')])
      else Unreadable)"









text \<open>A value of a document that begins with a slash, alone or as the element of a list.\<close>

definition begins_with_slash :: "json \<Rightarrow> bool" where
  "begins_with_slash j = (case j of JString s \<Rightarrow> prefix ''/'' s | _ \<Rightarrow> False)"

definition has_absolute_value :: "(string \<times> json) list \<Rightarrow> bool" where
  "has_absolute_value items =
     list_ex (\<lambda>(k, v). begins_with_slash v
                \<or> (case v of JArray vs \<Rightarrow> list_ex begins_with_slash vs | _ \<Rightarrow> False)) items"

text \<open>The example of the specification: a list that names \<open>$PDK_ROOT/ignore1\<close> twice.\<close>

definition fs_ignore :: file_system where
  "fs_ignore p =
     (if p = ''lvs.json'' then
        Parsed (JObject [(''LVS_IGNORE'',
                          JArray [JString ''$PDK_ROOT/ignore1'', JString ''$PDK_ROOT/ignore1''])])
      else Unreadable)"


















section \<open>Properties\<close>

text \<open>The definitions that the evaluation of a concrete load unfolds.\<close>

lemmas eval_defs =
  try_body_def logging_def assign_def is_valid_def substitute_env_variables_def
  py_split_def is_space_def is_word_def seed_def

subsection \<open>Broken files and exceptions\<close>

text \<open>
  C7: a path whose contents do not parse as a JSON object (an unreadable file,
  malformed JSON, a top level that is not an object) makes \<open>parse_config_file\<close> log
  the failure and return \<open>False\<close>, and the environment is what it was on entry.
\<close>

theorem broken_file_returns_false:
  assumes "not_a_json_object (fs p)"
  shows "fst (parse_config_file (Suc depth) fs p st) = Inr False
       \<and> env (snd (parse_config_file (Suc depth) fs p st)) = env st
       \<and> (\<exists>e. log (snd (parse_config_file (Suc depth) fs p st)) =
                log st @ [Loading p, ExceptionType e, ExceptionArgs e, ErrorWithFile p])"
proof (cases "fs p")
  case Unreadable
  then show ?thesis by (simp add: try_body_def logging_def)
next
  case Malformed
  then show ?thesis by (simp add: try_body_def logging_def)
next
  case (Parsed j)
  with assms show ?thesis
    by (cases j) (simp_all add: not_a_json_object_def try_body_def logging_def)
qed

theorem broken_file_returns_false_witness:
  "not_a_json_object ((\<lambda>p. Parsed (JArray [])) ''lvs.json'')
   \<and> fst (parse_config_file (Suc 0) (\<lambda>p. Parsed (JArray [])) ''lvs.json''
            (seed [(''PDK_ROOT'', ''/pdk'')])) = Inr False
   \<and> env (snd (parse_config_file (Suc 0) (\<lambda>p. Parsed (JArray [])) ''lvs.json''
            (seed [(''PDK_ROOT'', ''/pdk'')]))) = env (seed [(''PDK_ROOT'', ''/pdk'')])"
  using broken_file_returns_false
    [of "\<lambda>p. Parsed (JArray [])" "''lvs.json''" 0 "seed [(''PDK_ROOT'', ''/pdk'')]"]
  by (simp add: not_a_json_object_def)



subsection \<open>Loading a configuration twice\<close>

text \<open>
  C1, on a configuration the code loads twice: \<open>A\<close> includes \<open>B\<close> and \<open>D\<close>, \<open>B\<close>
  includes \<open>D\<close>, and \<open>INCLUDE_CONFIGS\<close> is seeded with \<open>A\<close>. The list \<open>exports\<close> of the
  frame of \<open>A\<close> was split off \<open>INCLUDE_CONFIGS\<close> before \<open>B\<close> was loaded, so it does not
  hold \<open>D\<close>, and \<open>D\<close> is loaded a second time.
\<close>

theorem shared_child_loaded_twice:
  "fst (parse_config_file 3 fs_shared_child ''A'' (seed [(INCLUDE_CONFIGS, ''A'')])) = Inr True
   \<and> log (snd (parse_config_file 3 fs_shared_child ''A'' (seed [(INCLUDE_CONFIGS, ''A'')])))
       = [Loading ''A'', Loading ''B'', Loading ''D'', Loading ''D'']
   \<and> env (snd (parse_config_file 3 fs_shared_child ''A'' (seed [(INCLUDE_CONFIGS, ''A'')])))
       INCLUDE_CONFIGS = Some ''A B D D''"
  by (simp add: eval_defs fs_shared_child_def eval_nat_numeral)

text \<open>The diamond of the specification is loaded as it says: \<open>D\<close> once.\<close>

lemma diamond_loads_once:
  "fst (parse_config_file 3 fs_diamond ''A'' (seed [(INCLUDE_CONFIGS, ''A'')])) = Inr True
   \<and> log (snd (parse_config_file 3 fs_diamond ''A'' (seed [(INCLUDE_CONFIGS, ''A'')])))
       = [Loading ''A'', Loading ''B'', Loading ''D'', Loading ''C'']"
  by (simp add: eval_defs fs_diamond_def eval_nat_numeral)

subsection \<open>A scalar that is an absolute path\<close>

text \<open>
  C8, on the inputs where the code departs from it. The scalar branch prints the local
  variable \<open>val\<close> of the list loop, not \<open>value\<close>: as the first key of a document the
  absolute path raises \<open>UnboundLocalError\<close>, and after a list the message names the
  last element of that list. In both cases the call returns \<open>False\<close> and writes
  nothing for the key, and the log never names the path.
\<close>

theorem absolute_scalar_not_named:
  "fst (parse_config_file (Suc 0) fs_absolute_scalar ''first.json'' (seed [])) = Inr False
   \<and> log (snd (parse_config_file (Suc 0) fs_absolute_scalar ''first.json'' (seed [])))
       = [Loading ''first.json'', ExceptionType UnboundLocalError,
          ExceptionArgs UnboundLocalError, ErrorWithFile ''first.json'']
   \<and> env (snd (parse_config_file (Suc 0) fs_absolute_scalar ''first.json'' (seed [])))
       ''LAYOUT_FILE'' = None
   \<and> fst (parse_config_file (Suc 0) fs_absolute_scalar ''second.json'' (seed [])) = Inr False
   \<and> log (snd (parse_config_file (Suc 0) fs_absolute_scalar ''second.json'' (seed [])))
       = [Loading ''second.json'', IsAbsolutePath ''cell_a'']
   \<and> env (snd (parse_config_file (Suc 0) fs_absolute_scalar ''second.json'' (seed [])))
       ''LAYOUT_FILE'' = None"
  by (simp add: eval_defs fs_absolute_scalar_def)

subsection \<open>Variable substitution\<close>















subsection \<open>The check for absolute paths\<close>

lemma begins_with_slash_simps:
  "begins_with_slash (JString s) = prefix ''/'' s"
  "begins_with_slash (JArray a) = False"
  "begins_with_slash (JObject b) = False"
  "begins_with_slash JOther = False"
  by (simp_all add: begins_with_slash_def)

lemma process_list_not_Returned_True:
  "fst (process_list load key vals exports val st) \<noteq> Returned True"
proof (induction vals arbitrary: key exports val st)
  case Nil
  show ?case by simp
next
  case (Cons v vs)
  show ?case
  proof (cases v)
    case (JString s)
    then show ?thesis
      using Cons.IH by (auto split: prod.splits option.splits sum.splits)
  qed simp_all
qed

lemma process_list_Normal_no_slash:
  "process_list load key vals exports val st = (Normal r, st') \<Longrightarrow>
   \<not> list_ex begins_with_slash vals"
proof (induction vals arbitrary: key exports val st)
  case Nil
  show ?case by simp
next
  case (Cons v vs)
  show ?case
  proof (cases v)
    case (JString s)
    with Cons.prems have valid: "is_valid s"
      by (simp split: if_splits)
    from Cons.prems JString valid have "\<not> list_ex begins_with_slash vs"
      by (auto split: prod.splits option.splits sum.splits if_splits dest: Cons.IH)
    with valid JString show ?thesis
      by (simp add: begins_with_slash_simps is_valid_def split: if_splits)
  next
    case (JArray x)
    with Cons.prems show ?thesis by simp
  next
    case (JObject x)
    with Cons.prems show ?thesis by simp
  next
    case JOther
    with Cons.prems show ?thesis by simp
  qed
qed

lemma process_items_not_Returned_True:
  "fst (process_items load items val st) \<noteq> Returned True"
proof (induction items arbitrary: val st)
  case Nil
  show ?case by simp
next
  case (Cons item rest)
  obtain key v where item: "item = (key, v)" by (cases item)
  show ?case
  proof (cases v)
    case (JString s)
    with item show ?thesis
      using Cons.IH by (simp split: prod.splits option.splits)
  next
    case (JArray vals)
    define r where "r = process_list load key vals (case env st key of Some x \<Rightarrow> py_split x | None \<Rightarrow> []) val st"
    have "fst r \<noteq> Returned True"
      unfolding r_def by (rule process_list_not_Returned_True)
    with item JArray show ?thesis
      using Cons.IH by (cases r; cases "fst r") (auto simp: r_def [symmetric])
  next
    case (JObject x)
    with item show ?thesis by simp
  next
    case JOther
    with item show ?thesis by simp
  qed
qed

lemma process_items_Normal_no_slash:
  "process_items load items val st = (Normal r, st') \<Longrightarrow> \<not> has_absolute_value items"
proof (induction items arbitrary: val st)
  case Nil
  show ?case by (simp add: has_absolute_value_def)
next
  case (Cons item rest)
  obtain key v where item: "item = (key, v)" by (cases item)
  show ?case
  proof (cases v)
    case (JString s)
    with item Cons.prems have valid: "is_valid s"
      by (simp split: if_splits option.splits)
    from Cons.prems item JString valid have "\<not> has_absolute_value rest"
      by (auto split: prod.splits option.splits dest: Cons.IH)
    with valid JString item show ?thesis
      by (simp add: has_absolute_value_def begins_with_slash_simps is_valid_def split: if_splits)
  next
    case (JArray vals)
    define q where "q = process_list load key vals (case env st key of Some x \<Rightarrow> py_split x | None \<Rightarrow> []) val st"
    from Cons.prems item JArray obtain ex v1 st1 where q: "q = (Normal (ex, v1), st1)"
      and rest: "process_items load rest v1
                   (if key \<noteq> INCLUDE_CONFIGS then assign key (join ex) st1 else st1) = (Normal r, st')"
      by (cases q; cases "fst q") (auto simp: q_def [symmetric])
    from q have "\<not> list_ex begins_with_slash vals"
      unfolding q_def by (rule process_list_Normal_no_slash)
    moreover from rest have "\<not> has_absolute_value rest"
      by (rule Cons.IH)
    ultimately show ?thesis
      using item JArray by (simp add: has_absolute_value_def begins_with_slash_simps)
  next
    case (JObject x)
    with item Cons.prems show ?thesis by simp
  next
    case JOther
    with item Cons.prems show ?thesis by simp
  qed
qed

lemma absolute_value_returns_false:
  assumes "fs p = Parsed (JObject items)" and "has_absolute_value items"
  shows "fst (parse_config_file (Suc depth) fs p st) = Inr False"
proof -
  define q where "q = process_items (parse_config_file depth fs) items None (logging (Loading p) st)"
  have "fst q \<noteq> Returned True"
    unfolding q_def by (rule process_items_not_Returned_True)
  moreover have "q \<noteq> (Normal r, st1)" for r st1
    using process_items_Normal_no_slash assms(2) unfolding q_def by blast
  ultimately show ?thesis
    using assms(1) by (cases q; cases "fst q") (auto simp: try_body_def q_def [symmetric])
qed

text \<open>
  C5: the check for an absolute path reads the value as it stands in the document. A
  document with a value that begins with a slash makes \<open>parse_config_file\<close> return
  \<open>False\<close>; such a value is turned down without a substitution, whatever the
  environment holds; a value that does not begin with a slash passes, and what it
  resolves to is not checked: with \<open>PDK_ROOT\<close> seeded as \<open>/pdk\<close>, the element
  \<open>$PDK_ROOT/ignore1\<close> is accepted and \<open>LVS_IGNORE\<close> becomes \<open>/pdk/ignore1\<close>.
\<close>

theorem absolute_path_checked_before_substitution:
  "(fs p = Parsed (JObject items) \<and> has_absolute_value items
      \<longrightarrow> fst (parse_config_file (Suc depth) fs p st) = Inr False)
   \<and> (prefix ''/'' s
      \<longrightarrow> process_list load key (JString s # vs) exports val st
            = (Returned False, logging (IsAbsolutePath s) st)
          \<and> process_items load ((key, JString s) # rest) val st
            = (case val of
                 None \<Rightarrow> (Raised UnboundLocalError, st)
               | Some x \<Rightarrow> (Returned False, logging (IsAbsolutePath x) st)))
   \<and> (\<not> prefix ''/'' s \<and> substitute_env_variables s st = (Some s', st')
      \<longrightarrow> process_items load ((key, JString s) # rest) val st
            = process_items load rest val (assign key s' st')
          \<and> (key \<noteq> INCLUDE_CONFIGS \<longrightarrow>
               process_list load key (JString s # vs) exports val st
               = process_list load key vs (if s' \<in> set exports then exports else exports @ [s'])
                   (Some s') st'))
   \<and> fst (parse_config_file (Suc 0) fs_ignore ''lvs.json'' (seed [(''PDK_ROOT'', ''/pdk'')]))
       = Inr True
   \<and> env (snd (parse_config_file (Suc 0) fs_ignore ''lvs.json'' (seed [(''PDK_ROOT'', ''/pdk'')])))
       ''LVS_IGNORE'' = Some ''/pdk/ignore1''"
proof -
  have a: "fst (parse_config_file (Suc depth) fs p st) = Inr False"
    if "fs p = Parsed (JObject items)" "has_absolute_value items"
    using that by (rule absolute_value_returns_false)
  have b: "process_list load key (JString s # vs) exports val st
            = (Returned False, logging (IsAbsolutePath s) st)
          \<and> process_items load ((key, JString s) # rest) val st
            = (case val of
                 None \<Rightarrow> (Raised UnboundLocalError, st)
               | Some x \<Rightarrow> (Returned False, logging (IsAbsolutePath x) st))"
    if "prefix ''/'' s"
    using that by (simp add: is_valid_def)
  have c: "process_items load ((key, JString s) # rest) val st
            = process_items load rest val (assign key s' st')
          \<and> (key \<noteq> INCLUDE_CONFIGS \<longrightarrow>
               process_list load key (JString s # vs) exports val st
               = process_list load key vs (if s' \<in> set exports then exports else exports @ [s'])
                   (Some s') st')"
    if "\<not> prefix ''/'' s" "substitute_env_variables s st = (Some s', st')"
    using that by (simp add: is_valid_def)
  have d: "fst (parse_config_file (Suc 0) fs_ignore ''lvs.json'' (seed [(''PDK_ROOT'', ''/pdk'')]))
       = Inr True
   \<and> env (snd (parse_config_file (Suc 0) fs_ignore ''lvs.json'' (seed [(''PDK_ROOT'', ''/pdk'')])))
       ''LVS_IGNORE'' = Some ''/pdk/ignore1''"
    by (simp add: eval_defs fs_ignore_def)
  from a b c d show ?thesis by blast
qed

theorem absolute_path_checked_before_substitution_witness:
  "has_absolute_value [(''LVS_IGNORE'', JArray [JString ''/abs/$UNDEFINED''])]
   \<and> fst (parse_config_file (Suc 0)
            (\<lambda>p. Parsed (JObject [(''LVS_IGNORE'', JArray [JString ''/abs/$UNDEFINED''])]))
            ''lvs.json'' (seed [])) = Inr False
   \<and> process_list (\<lambda>p st. (Inr True, st)) ''LVS_IGNORE'' [JString ''/abs/$UNDEFINED''] [] None (seed [])
       = (Returned False, logging (IsAbsolutePath ''/abs/$UNDEFINED'') (seed []))
   \<and> substitute_env_variables ''$PDK_ROOT/lib.spice'' (seed [(''PDK_ROOT'', ''/pdk'')])
       = (Some ''/pdk/lib.spice'', seed [(''PDK_ROOT'', ''/pdk'')])
   \<and> process_items (\<lambda>p st. (Inr True, st)) [(''LVS_SPICE_FILES'', JString ''$PDK_ROOT/lib.spice'')] None
         (seed [(''PDK_ROOT'', ''/pdk'')])
       = (Normal None, assign ''LVS_SPICE_FILES'' ''/pdk/lib.spice'' (seed [(''PDK_ROOT'', ''/pdk'')]))"
  using absolute_path_checked_before_substitution
      [of "\<lambda>p. Parsed (JObject [(''LVS_IGNORE'', JArray [JString ''/abs/$UNDEFINED''])])"
          "''lvs.json''" "[(''LVS_IGNORE'', JArray [JString ''/abs/$UNDEFINED''])]" 0 "seed []"
          "''/abs/$UNDEFINED''" "\<lambda>p st. (Inr True, st)" "''LVS_IGNORE''" "[]" "[]" None "[]"]
    absolute_path_checked_before_substitution
      [of "\<lambda>p. Unreadable" "[]" "[]" 0 "seed [(''PDK_ROOT'', ''/pdk'')]"
          "''$PDK_ROOT/lib.spice''" "\<lambda>p st. (Inr True, st)" "''LVS_SPICE_FILES''" "[]" "[]" None "[]"
          "''/pdk/lib.spice''" "seed [(''PDK_ROOT'', ''/pdk'')]"]
  by (simp add: eval_defs has_absolute_value_def begins_with_slash_def)

subsection \<open>Lists that are no includes\<close>












subsection \<open>Splitting what was joined\<close>









subsection \<open>What a value looks up\<close>





subsection \<open>Two files with the same list key\<close>





subsection \<open>References to undefined variables\<close>






subsection \<open>Loading a document without includes\<close>















end
